theory Spec2Isabelle
  imports Complex_Main
begin

section \<open>Data handed to the chart\<close>

text \<open>
  The interfaces of \<^verbatim>\<open>graph.tsx\<close>. A JavaScript \<^verbatim>\<open>number\<close> is carried as a
  \<^typ>\<open>real\<close>: the component only stores and forwards these values, it never computes
  with them.
\<close>

record BarData =
  timestamp :: real
  open_price :: real
  high :: real
  low :: real
  close :: real
  volume :: real

text \<open>
  \<^verbatim>\<open>GetBarsCallback\<close> returns \<^verbatim>\<open>void\<close>; what a call of it does belongs to the
  widget, so its effect is a value of a type \<open>'r\<close> the widget chooses. A caller may pass
  an object with more fields than \<^verbatim>\<open>callback\<close>: the record scheme keeps them in its
  extension \<open>'m\<close>.
\<close>

record 'r GetBarsParams =
  callback :: "BarData list \<Rightarrow> 'r"

datatype js_error = TypeError string | Thrown string

datatype log_arg = ArgChart | ArgData "BarData list" | ArgError js_error

datatype console_entry =
  ConsoleLog string "log_arg list"
| ConsoleError string "log_arg list"

text \<open>
  \<^verbatim>\<open>getBars\<close> writes one console line and calls the callback: its value is the lines
  it writes, paired with the effect of that call.
\<close>

record ('r, 'm) DataLoader =
  getBars :: "('r, 'm) GetBarsParams_scheme \<Rightarrow> console_entry list \<times> 'r"

record Symbol =
  ticker :: string

record Period =
  span :: real
  period_type :: string

section \<open>The chart handle\<close>

datatype completion = Normal | Throw js_error

text \<open>
  What a call of a chart method does, seen from the effect: it ends, returning or
  throwing, and leaves the widget in some state of its own (\<open>Done\<close>); before that it may
  ask the loader it was given for bars, any number of times (\<open>Pull\<close>, with the request it
  passes to \<^verbatim>\<open>getBars\<close> and what it does once its callback has been called).
\<close>

datatype ('w, 'r, 'm) reaction =
  Done completion 'w
| Pull "('r, 'm) GetBarsParams_scheme" "'r \<Rightarrow> ('w, 'r, 'm) reaction"

text \<open>
  The chart is used as \<^verbatim>\<open>any\<close>: each of its methods may be missing (\<open>None\<close>); one
  that is present reacts to its argument from the widget's own state \<open>'w\<close>.
\<close>

type_synonym ('a, 'w, 'r, 'm) chart_method = "('a \<Rightarrow> 'w \<Rightarrow> ('w, 'r, 'm) reaction) option"

record ('w, 'r, 'm) chart =
  setDataLoader :: "(('r, 'm) DataLoader, 'w, 'r, 'm) chart_method"
  applyNewData :: "(BarData list, 'w, 'r, 'm) chart_method"
  setData :: "(BarData list, 'w, 'r, 'm) chart_method"
  loadData :: "(BarData list, 'w, 'r, 'm) chart_method"
  setSymbol :: "(Symbol, 'w, 'r, 'm) chart_method"
  setPeriod :: "(Period, 'w, 'r, 'm) chart_method"

datatype method_name =
  SetDataLoader | ApplyNewData | SetData | LoadData | SetSymbol | SetPeriod

datatype ('r, 'm) call_arg =
  LoaderArg "('r, 'm) DataLoader"
| DataArg "BarData list"
| SymbolArg Symbol
| PeriodArg Period

text \<open>
  The state the effect runs in: the console (the lines the effect and its \<^verbatim>\<open>getBars\<close>
  write), the widget, and the history of the calls made on the handle (method, argument,
  how the call completed). Whatever else the environment holds is the extension of the
  record.
\<close>

record ('w, 'r, 'm) state =
  console :: "console_entry list"
  calls :: "(method_name \<times> ('r, 'm) call_arg \<times> completion) list"
  widget :: 'w

type_synonym 's stmt = "'s \<Rightarrow> completion \<times> 's"

definition console_log :: "string \<Rightarrow> log_arg list \<Rightarrow> ('w, 'r, 'm, 'z) state_scheme stmt" where
  "console_log msg args s = (Normal, s\<lparr>console := console s @ [ConsoleLog msg args]\<rparr>)"

definition console_error :: "string \<Rightarrow> log_arg list \<Rightarrow> ('w, 'r, 'm, 'z) state_scheme stmt" where
  "console_error msg args s = (Normal, s\<lparr>console := console s @ [ConsoleError msg args]\<rparr>)"

fun method_string :: "method_name \<Rightarrow> string" where
  "method_string SetDataLoader = ''setDataLoader''"
| "method_string ApplyNewData = ''applyNewData''"
| "method_string SetData = ''setData''"
| "method_string LoadData = ''loadData''"
| "method_string SetSymbol = ''setSymbol''"
| "method_string SetPeriod = ''setPeriod''"

text \<open>
  Running a reaction against the loader the effect has made: every pull is a call of that
  loader's \<^verbatim>\<open>getBars\<close>, whose console lines are written in the order of the pulls. The
  result is how the call completed, the widget it left, and the lines written meanwhile.
\<close>

primrec exec ::
  "('r, 'm) DataLoader \<Rightarrow> ('w, 'r, 'm) reaction \<Rightarrow> completion \<times> 'w \<times> console_entry list" where
  "exec loader (Done c w) = (c, w, [])"
| "exec loader (Pull params continue) =
     (case getBars loader params of
        (written, r) \<Rightarrow>
          (case exec loader (continue r) of
             (c, w, later) \<Rightarrow> (c, w, written @ later)))"

text \<open>
  \<^verbatim>\<open>(chart as any).name(arg)\<close>: calling a missing method throws a \<^verbatim>\<open>TypeError\<close>
  and leaves the widget as it is; a present method reacts from the widget's state.
\<close>

definition respond ::
  "('r, 'm) DataLoader \<Rightarrow> method_name \<Rightarrow> ('a, 'w, 'r, 'm) chart_method \<Rightarrow> 'a \<Rightarrow> 'w
    \<Rightarrow> completion \<times> 'w \<times> console_entry list" where
  "respond loader n m a w =
     (case m of
        None \<Rightarrow> (Throw (TypeError (method_string n @ '' is not a function'')), w, [])
      | Some f \<Rightarrow> exec loader (f a w))"

text \<open>
  A call on the handle, as a statement: the lines \<^verbatim>\<open>getBars\<close> wrote during the call
  are on the console when it completes, and the call is added to the history.
\<close>

definition invoke ::
  "('r, 'm) DataLoader \<Rightarrow> method_name \<Rightarrow> ('a, 'w, 'r, 'm) chart_method
    \<Rightarrow> ('a \<Rightarrow> ('r, 'm) call_arg) \<Rightarrow> 'a \<Rightarrow> ('w, 'r, 'm, 'z) state_scheme stmt" where
  "invoke loader n m mk a s =
     (case respond loader n m a (widget s) of
        (c, w', written) \<Rightarrow>
          (c, s\<lparr>console := console s @ written,
                calls := calls s @ [(n, mk a, c)],
                widget := w'\<rparr>))"

section \<open>Statements\<close>

text \<open>A block runs its statements in order and stops at the first one that throws.\<close>

fun block :: "'s stmt list \<Rightarrow> 's stmt" where
  "block [] s = (Normal, s)"
| "block (st # rest) s =
     (case st s of
        (Normal, s') \<Rightarrow> block rest s'
      | (Throw e, s') \<Rightarrow> (Throw e, s'))"

definition try_catch :: "'s stmt \<Rightarrow> (js_error \<Rightarrow> 's stmt) \<Rightarrow> 's stmt" where
  "try_catch body handler s =
     (case body s of
        (Normal, s') \<Rightarrow> (Normal, s')
      | (Throw e, s') \<Rightarrow> handler e s')"

section \<open>The effect of \<open>GraphComponent\<close>\<close>

text \<open>
  The loader of lines 131-136. Whoever calls its \<^verbatim>\<open>getBars\<close> (the widget, through
  \<open>Pull\<close>) gets the console line written and the callback called with all the bars.
\<close>

definition dataLoader :: "BarData list \<Rightarrow> ('r, 'm) DataLoader" where
  "dataLoader sampleData =
     \<lparr>getBars = (\<lambda>params.
        ([ConsoleLog ''getBars called, providing data...'' []], callback params sampleData))\<rparr>"

definition load_data ::
  "('w, 'r, 'm) chart \<Rightarrow> BarData list \<Rightarrow> ('w, 'r, 'm, 'z) state_scheme stmt" where
  "load_data chart sampleData =
     try_catch
       (block
         [invoke (dataLoader sampleData) SetDataLoader (setDataLoader chart) LoaderArg
            (dataLoader sampleData),
          console_log ''setDataLoader called successfully'' []])
       (\<lambda>loaderError. block
         [console_log ''setDataLoader failed, trying alternative methods:'' [ArgError loaderError],
          try_catch
            (block
              [invoke (dataLoader sampleData) ApplyNewData (applyNewData chart) DataArg sampleData,
               console_log ''applyNewData called successfully'' []])
            (\<lambda>applyError. block
              [console_log ''applyNewData failed:'' [ArgError applyError],
               try_catch
                 (block
                   [invoke (dataLoader sampleData) SetData (setData chart) DataArg sampleData,
                    console_log ''setData called successfully'' []])
                 (\<lambda>setDataError. block
                   [console_log ''setData failed:'' [ArgError setDataError],
                    try_catch
                      (block
                        [invoke (dataLoader sampleData) LoadData (loadData chart) DataArg sampleData,
                         console_log ''loadData called successfully'' []])
                      (\<lambda>loadError. block
                        [console_log ''loadData failed:'' [ArgError loadError],
                         console_error ''All data loading methods failed'' []])])])])"

text \<open>
  What the effect callback hands back to React: nothing when the chart could not be
  created, the cleanup function (which disposes of the chart) otherwise.
\<close>

datatype effect_result = Undefined | Cleanup

datatype outcome = Returned effect_result | Threw js_error

definition provision ::
  "('w, 'r, 'm) chart option \<Rightarrow> BarData list \<Rightarrow> ('w, 'r, 'm, 'z) state_scheme
    \<Rightarrow> outcome \<times> ('w, 'r, 'm, 'z) state_scheme" where
  "provision chart sampleData s =
     (case chart of
        None \<Rightarrow>
          (case console_error ''Failed to initialize KLineChart'' [] s of
             (Normal, s') \<Rightarrow> (Returned Undefined, s')
           | (Throw e, s') \<Rightarrow> (Threw e, s'))
      | Some ch \<Rightarrow>
          (case try_catch
                  (block
                    [console_log ''Chart initialized:'' [ArgChart],
                     console_log ''Sample data:'' [ArgData sampleData],
                     load_data ch sampleData,
                     invoke (dataLoader sampleData) SetSymbol (setSymbol ch) SymbolArg
                       \<lparr>ticker = ''TestSymbol''\<rparr>,
                     invoke (dataLoader sampleData) SetPeriod (setPeriod ch) PeriodArg
                       \<lparr>span = 1, period_type = ''day''\<rparr>])
                  (\<lambda>error. console_error ''Error setting up chart:'' [ArgError error]) s of
             (Normal, s') \<Rightarrow> (Returned Cleanup, s')
           | (Throw e, s') \<Rightarrow> (Threw e, s')))"

definition sampleData :: "BarData list" where
  "sampleData =
     [\<lparr>timestamp = 1517846400000, open_price = 7424.6, high = 7511.3, low = 6032.3,
       close = 7310.1, volume = 224461\<rparr>,
      \<lparr>timestamp = 1517932800000, open_price = 7310.1, high = 8499.9, low = 6810,
       close = 8165.4, volume = 148807\<rparr>,
      \<lparr>timestamp = 1518019200000, open_price = 8166.7, high = 8700.8, low = 7400,
       close = 8245.1, volume = 24467\<rparr>,
      \<lparr>timestamp = 1518105600000, open_price = 8244, high = 8494, low = 7760,
       close = 8364, volume = 29834\<rparr>,
      \<lparr>timestamp = 1518192000000, open_price = 8363.6, high = 9036.7, low = 8269.8,
       close = 8311.9, volume = 28203\<rparr>,
      \<lparr>timestamp = 1518278400000, open_price = 8301, high = 8569.4, low = 7820.2,
       close = 8426, volume = 59854\<rparr>,
      \<lparr>timestamp = 1518364800000, open_price = 8426, high = 8838, low = 8024,
       close = 8640, volume = 54457\<rparr>,
      \<lparr>timestamp = 1518451200000, open_price = 8640, high = 8976.8, low = 8360,
       close = 8500, volume = 51156\<rparr>,
      \<lparr>timestamp = 1518537600000, open_price = 8504.9, high = 9307.3, low = 8474.3,
       close = 9307.3, volume = 49118\<rparr>,
      \<lparr>timestamp = 1518624000000, open_price = 9307.3, high = 9897, low = 9182.2,
       close = 9774, volume = 48092\<rparr>]"

text \<open>
  The callback given to \<^verbatim>\<open>useEffect\<close>: \<open>provision\<close> on the result of
  \<^verbatim>\<open>init("chart")\<close> and the sample bars.
\<close>

definition GraphComponent_effect ::
  "('w, 'r, 'm) chart option \<Rightarrow> ('w, 'r, 'm, 'z) state_scheme
    \<Rightarrow> outcome \<times> ('w, 'r, 'm, 'z) state_scheme" where
  "GraphComponent_effect chart = provision chart sampleData"

section \<open>Reading a run\<close>

text \<open>A run on a live chart starts with an empty console and an empty call history.\<close>

definition fresh :: "'w \<Rightarrow> ('w, 'r, 'm) state" where
  "fresh w = \<lparr>console = [], calls = [], widget = w\<rparr>"

definition final :: "('w, 'r, 'm) chart \<Rightarrow> BarData list \<Rightarrow> 'w \<Rightarrow> ('w, 'r, 'm) state" where
  "final ch series w = snd (provision (Some ch) series (fresh w))"

definition completions :: "method_name \<Rightarrow> ('w, 'r, 'm, 'z) state_scheme \<Rightarrow> completion list" where
  "completions n s = map (\<lambda>(n', a, c). c) (filter (\<lambda>(n', a, c). n' = n) (calls s))"

definition attempted :: "method_name \<Rightarrow> ('w, 'r, 'm, 'z) state_scheme \<Rightarrow> bool" where
  "attempted n s = (completions n s \<noteq> [])"

definition succeeded :: "method_name \<Rightarrow> ('w, 'r, 'm, 'z) state_scheme \<Rightarrow> bool" where
  "succeeded n s = (Normal \<in> set (completions n s))"

definition failed :: "method_name \<Rightarrow> ('w, 'r, 'm, 'z) state_scheme \<Rightarrow> bool" where
  "failed n s = list_ex (\<lambda>c. c \<noteq> Normal) (completions n s)"

definition strategy_order :: "method_name list" where
  "strategy_order = [SetDataLoader, ApplyNewData, SetData, LoadData]"

definition strategy_calls :: "('w, 'r, 'm, 'z) state_scheme \<Rightarrow> method_name list" where
  "strategy_calls s = filter (\<lambda>n. n \<in> set strategy_order) (map fst (calls s))"

definition success_record :: "method_name \<Rightarrow> console_entry" where
  "success_record n = ConsoleLog (method_string n @ '' called successfully'') []"

text \<open>
  The answer of the handle to a recorded call, read off the chart again, and the replay
  of a call history from a widget state: it yields the widget the calls lead to, provided
  every recorded completion is the answer the handle gives at that point.
\<close>

fun answer ::
  "('w, 'r, 'm) chart \<Rightarrow> ('r, 'm) DataLoader \<Rightarrow> method_name \<Rightarrow> ('r, 'm) call_arg \<Rightarrow> 'w
    \<Rightarrow> completion \<times> 'w \<times> console_entry list" where
  "answer ch loader n (LoaderArg l) w = respond loader n (setDataLoader ch) l w"
| "answer ch loader n (DataArg d) w =
     (if n = ApplyNewData then respond loader n (applyNewData ch) d w
      else if n = SetData then respond loader n (setData ch) d w
      else respond loader n (loadData ch) d w)"
| "answer ch loader n (SymbolArg y) w = respond loader n (setSymbol ch) y w"
| "answer ch loader n (PeriodArg p) w = respond loader n (setPeriod ch) p w"

fun replay ::
  "('w, 'r, 'm) chart \<Rightarrow> ('r, 'm) DataLoader
    \<Rightarrow> (method_name \<times> ('r, 'm) call_arg \<times> completion) list \<Rightarrow> 'w \<Rightarrow> 'w option" where
  "replay ch loader [] w = Some w"
| "replay ch loader ((n, a, c) # rest) w =
     (case answer ch loader n a w of
        (c', w', written) \<Rightarrow> if c' = c then replay ch loader rest w' else None)"

section \<open>Some charts\<close>

text \<open>
  Charts to run the effect on. Their widget state is the bars they hold; the callback
  they pass to \<^verbatim>\<open>getBars\<close> hands back the bars it is given.
\<close>

definition no_methods :: "(BarData list, BarData list, unit) chart" where
  "no_methods =
     \<lparr>setDataLoader = None, applyNewData = None, setData = None, loadData = None,
      setSymbol = None, setPeriod = None\<rparr>"

text \<open>A chart that throws on the loader, lacks \<^verbatim>\<open>applyNewData\<close> and accepts \<^verbatim>\<open>setData\<close>.\<close>

definition direct_chart :: "(BarData list, BarData list, unit) chart" where
  "direct_chart =
     \<lparr>setDataLoader = Some (\<lambda>l w. Done (Throw (Thrown ''loader not supported'')) w),
      applyNewData = None,
      setData = Some (\<lambda>d w. Done Normal d),
      loadData = Some (\<lambda>d w. Done Normal d),
      setSymbol = Some (\<lambda>y w. Done Normal w),
      setPeriod = Some (\<lambda>p w. Done Normal w)\<rparr>"

text \<open>A chart with the two configuration methods and no way to take data.\<close>

definition config_only_chart :: "(BarData list, BarData list, unit) chart" where
  "config_only_chart =
     \<lparr>setDataLoader = None, applyNewData = None, setData = None, loadData = None,
      setSymbol = Some (\<lambda>y w. Done Normal w),
      setPeriod = Some (\<lambda>p w. Done Normal w)\<rparr>"

text \<open>
  A chart that takes a loader, asking it for the bars at once, and has \<^verbatim>\<open>setPeriod\<close>
  but no \<^verbatim>\<open>setSymbol\<close>.
\<close>

definition loader_chart :: "(BarData list, BarData list, unit) chart" where
  "loader_chart =
     \<lparr>setDataLoader = Some (\<lambda>l w. Pull \<lparr>callback = (\<lambda>bars. bars)\<rparr> (\<lambda>bars. Done Normal bars)),
      applyNewData = None, setData = None, loadData = None,
      setSymbol = None,
      setPeriod = Some (\<lambda>p w. Done Normal w)\<rparr>"

text \<open>
  A chart that asks the loader for the bars, keeps them, and then throws all the same; it
  has no other method.
\<close>

definition pulling_chart :: "(BarData list, BarData list, unit) chart" where
  "pulling_chart =
     \<lparr>setDataLoader = Some (\<lambda>l w.
        Pull \<lparr>callback = (\<lambda>bars. bars)\<rparr> (\<lambda>bars. Done (Throw (Thrown ''loader rejected'')) bars)),
      applyNewData = None, setData = None, loadData = None,
      setSymbol = None, setPeriod = None\<rparr>"

section \<open>The shapes of a run\<close>

lemma block_single: "block [st] s = st s"
  by (simp split: prod.splits completion.splits)

lemma block_log:
  "block (console_log msg args # rest) s =
     block rest (s\<lparr>console := console s @ [ConsoleLog msg args]\<rparr>)"
  by (simp add: console_log_def)

text \<open>All that a call on the handle can put on the console are lines of \<^verbatim>\<open>getBars\<close>.\<close>

lemma exec_lines:
  "\<exists>c w' k. exec (dataLoader series) r =
     (c, w', replicate k (ConsoleLog ''getBars called, providing data...'' []))"
proof (induction r)
  case (Done c w)
  have "exec (dataLoader series) (Done c w) =
      (c, w, replicate 0 (ConsoleLog ''getBars called, providing data...'' []))"
    by simp
  then show ?case by blast
next
  case (Pull params continue)
  then obtain c w' k where
    "exec (dataLoader series) (continue (callback params series)) =
       (c, w', replicate k (ConsoleLog ''getBars called, providing data...'' []))"
    by blast
  then have "exec (dataLoader series) (Pull params continue) =
      (c, w', replicate (Suc k) (ConsoleLog ''getBars called, providing data...'' []))"
    by (simp add: dataLoader_def)
  then show ?case by blast
qed

lemma respond_lines:
  obtains c w' k where
    "respond (dataLoader series) n m a w =
       (c, w', replicate k (ConsoleLog ''getBars called, providing data...'' []))"
proof (cases m)
  case None
  have "respond (dataLoader series) n m a w =
      (Throw (TypeError (method_string n @ '' is not a function'')), w,
       replicate 0 (ConsoleLog ''getBars called, providing data...'' []))"
    by (simp add: respond_def None)
  then show thesis by (rule that)
next
  case (Some f)
  from exec_lines [of series "f a w"] show thesis
    by (auto simp add: respond_def Some intro: that)
qed

lemma try_invoke:
  "try_catch (block [invoke l n m mk a, console_log msg args]) handler s =
     (case respond l n m a (widget s) of
        (Normal, w', written) \<Rightarrow>
          (Normal, s\<lparr>console := console s @ written @ [ConsoleLog msg args],
                     calls := calls s @ [(n, mk a, Normal)], widget := w'\<rparr>)
      | (Throw e, w', written) \<Rightarrow>
          handler e (s\<lparr>console := console s @ written,
                      calls := calls s @ [(n, mk a, Throw e)], widget := w'\<rparr>))"
proof (cases "respond l n m a (widget s)")
  case (fields c w' written)
  then show ?thesis
    by (cases c) (simp_all add: try_catch_def invoke_def console_log_def)
qed

lemma load_data_cases [case_names ViaSetDataLoader ViaApplyNewData ViaSetData ViaLoadData AllFailed]:
  fixes ch :: "('w, 'r, 'm) chart" and s :: "('w, 'r, 'm, 'z) state_scheme"
  obtains
    wa ka where
      "respond (dataLoader series) SetDataLoader (setDataLoader ch) (dataLoader series) (widget s) =
         (Normal, wa, replicate ka (ConsoleLog ''getBars called, providing data...'' []))"
      "load_data ch series s =
         (Normal,
          s\<lparr>console := console s @
              replicate ka (ConsoleLog ''getBars called, providing data...'' []) @
              [ConsoleLog ''setDataLoader called successfully'' []],
            calls := calls s @
              [(SetDataLoader, LoaderArg (dataLoader series), Normal)],
            widget := wa\<rparr>)"
  | ea wa ka wb kb where
      "respond (dataLoader series) SetDataLoader (setDataLoader ch) (dataLoader series) (widget s) =
         (Throw ea, wa, replicate ka (ConsoleLog ''getBars called, providing data...'' []))"
      "respond (dataLoader series) ApplyNewData (applyNewData ch) series wa =
         (Normal, wb, replicate kb (ConsoleLog ''getBars called, providing data...'' []))"
      "load_data ch series s =
         (Normal,
          s\<lparr>console := console s @
              replicate ka (ConsoleLog ''getBars called, providing data...'' []) @
              [ConsoleLog ''setDataLoader failed, trying alternative methods:'' [ArgError ea]] @
              replicate kb (ConsoleLog ''getBars called, providing data...'' []) @
              [ConsoleLog ''applyNewData called successfully'' []],
            calls := calls s @
              [(SetDataLoader, LoaderArg (dataLoader series), Throw ea),
               (ApplyNewData, DataArg series, Normal)],
            widget := wb\<rparr>)"
  | ea wa ka eb wb kb wc kc where
      "respond (dataLoader series) SetDataLoader (setDataLoader ch) (dataLoader series) (widget s) =
         (Throw ea, wa, replicate ka (ConsoleLog ''getBars called, providing data...'' []))"
      "respond (dataLoader series) ApplyNewData (applyNewData ch) series wa =
         (Throw eb, wb, replicate kb (ConsoleLog ''getBars called, providing data...'' []))"
      "respond (dataLoader series) SetData (setData ch) series wb =
         (Normal, wc, replicate kc (ConsoleLog ''getBars called, providing data...'' []))"
      "load_data ch series s =
         (Normal,
          s\<lparr>console := console s @
              replicate ka (ConsoleLog ''getBars called, providing data...'' []) @
              [ConsoleLog ''setDataLoader failed, trying alternative methods:'' [ArgError ea]] @
              replicate kb (ConsoleLog ''getBars called, providing data...'' []) @
              [ConsoleLog ''applyNewData failed:'' [ArgError eb]] @
              replicate kc (ConsoleLog ''getBars called, providing data...'' []) @
              [ConsoleLog ''setData called successfully'' []],
            calls := calls s @
              [(SetDataLoader, LoaderArg (dataLoader series), Throw ea),
               (ApplyNewData, DataArg series, Throw eb),
               (SetData, DataArg series, Normal)],
            widget := wc\<rparr>)"
  | ea wa ka eb wb kb ec wc kc wd kd where
      "respond (dataLoader series) SetDataLoader (setDataLoader ch) (dataLoader series) (widget s) =
         (Throw ea, wa, replicate ka (ConsoleLog ''getBars called, providing data...'' []))"
      "respond (dataLoader series) ApplyNewData (applyNewData ch) series wa =
         (Throw eb, wb, replicate kb (ConsoleLog ''getBars called, providing data...'' []))"
      "respond (dataLoader series) SetData (setData ch) series wb =
         (Throw ec, wc, replicate kc (ConsoleLog ''getBars called, providing data...'' []))"
      "respond (dataLoader series) LoadData (loadData ch) series wc =
         (Normal, wd, replicate kd (ConsoleLog ''getBars called, providing data...'' []))"
      "load_data ch series s =
         (Normal,
          s\<lparr>console := console s @
              replicate ka (ConsoleLog ''getBars called, providing data...'' []) @
              [ConsoleLog ''setDataLoader failed, trying alternative methods:'' [ArgError ea]] @
              replicate kb (ConsoleLog ''getBars called, providing data...'' []) @
              [ConsoleLog ''applyNewData failed:'' [ArgError eb]] @
              replicate kc (ConsoleLog ''getBars called, providing data...'' []) @
              [ConsoleLog ''setData failed:'' [ArgError ec]] @
              replicate kd (ConsoleLog ''getBars called, providing data...'' []) @
              [ConsoleLog ''loadData called successfully'' []],
            calls := calls s @
              [(SetDataLoader, LoaderArg (dataLoader series), Throw ea),
               (ApplyNewData, DataArg series, Throw eb),
               (SetData, DataArg series, Throw ec),
               (LoadData, DataArg series, Normal)],
            widget := wd\<rparr>)"
  | ea wa ka eb wb kb ec wc kc ed wd kd where
      "respond (dataLoader series) SetDataLoader (setDataLoader ch) (dataLoader series) (widget s) =
         (Throw ea, wa, replicate ka (ConsoleLog ''getBars called, providing data...'' []))"
      "respond (dataLoader series) ApplyNewData (applyNewData ch) series wa =
         (Throw eb, wb, replicate kb (ConsoleLog ''getBars called, providing data...'' []))"
      "respond (dataLoader series) SetData (setData ch) series wb =
         (Throw ec, wc, replicate kc (ConsoleLog ''getBars called, providing data...'' []))"
      "respond (dataLoader series) LoadData (loadData ch) series wc =
         (Throw ed, wd, replicate kd (ConsoleLog ''getBars called, providing data...'' []))"
      "load_data ch series s =
         (Normal,
          s\<lparr>console := console s @
              replicate ka (ConsoleLog ''getBars called, providing data...'' []) @
              [ConsoleLog ''setDataLoader failed, trying alternative methods:'' [ArgError ea]] @
              replicate kb (ConsoleLog ''getBars called, providing data...'' []) @
              [ConsoleLog ''applyNewData failed:'' [ArgError eb]] @
              replicate kc (ConsoleLog ''getBars called, providing data...'' []) @
              [ConsoleLog ''setData failed:'' [ArgError ec]] @
              replicate kd (ConsoleLog ''getBars called, providing data...'' []) @
              [ConsoleLog ''loadData failed:'' [ArgError ed]] @
              [ConsoleError ''All data loading methods failed'' []],
            calls := calls s @
              [(SetDataLoader, LoaderArg (dataLoader series), Throw ea),
               (ApplyNewData, DataArg series, Throw eb),
               (SetData, DataArg series, Throw ec),
               (LoadData, DataArg series, Throw ed)],
            widget := wd\<rparr>)"
proof -
  obtain ca wa ka where ra:
    "respond (dataLoader series :: ('r, 'm) DataLoader) SetDataLoader (setDataLoader ch) (dataLoader series) (widget s) =
       (ca, wa, replicate ka (ConsoleLog ''getBars called, providing data...'' []))"
    by (rule respond_lines)
  obtain cb wb kb where rb:
    "respond (dataLoader series) ApplyNewData (applyNewData ch) series wa =
       (cb, wb, replicate kb (ConsoleLog ''getBars called, providing data...'' []))"
    by (rule respond_lines)
  obtain cc wc kc where rc:
    "respond (dataLoader series) SetData (setData ch) series wb =
       (cc, wc, replicate kc (ConsoleLog ''getBars called, providing data...'' []))"
    by (rule respond_lines)
  obtain cd wd kd where rd:
    "respond (dataLoader series) LoadData (loadData ch) series wc =
       (cd, wd, replicate kd (ConsoleLog ''getBars called, providing data...'' []))"
    by (rule respond_lines)
  note rw = load_data_def try_invoke block_log block_single console_error_def ra rb rc rd
  show thesis
  proof (cases ca)
    case Normal
    show thesis
      by (rule that(1) [of wa ka]) (simp_all add: rw Normal del: block.simps)
  next
    case ta: (Throw ea)
    show thesis
    proof (cases cb)
      case Normal
      show thesis
        by (rule that(2) [of ea wa ka wb kb]) (simp_all add: rw ta Normal del: block.simps)
    next
      case tb: (Throw eb)
      show thesis
      proof (cases cc)
        case Normal
        show thesis
          by (rule that(3) [of ea wa ka eb wb kb wc kc]) (simp_all add: rw ta tb Normal del: block.simps)
      next
        case tc: (Throw ec)
        show thesis
        proof (cases cd)
          case Normal
          show thesis
            by (rule that(4) [of ea wa ka eb wb kb ec wc kc wd kd]) (simp_all add: rw ta tb tc Normal del: block.simps)
        next
          case td: (Throw ed)
          show thesis
            by (rule that(5) [of ea wa ka eb wb kb ec wc kc ed wd kd]) (simp_all add: rw ta tb tc td del: block.simps)
        qed
      qed
    qed
  qed
qed

lemma provision_Some_cases [case_names SymbolThrows PeriodThrows Configured]:
  fixes ch :: "('w, 'r, 'm) chart" and s :: "('w, 'r, 'm, 'z) state_scheme"
  assumes "load_data ch series
             (s\<lparr>console := console s @
                  [ConsoleLog ''Chart initialized:'' [ArgChart],
                   ConsoleLog ''Sample data:'' [ArgData series]]\<rparr>) = (Normal, t)"
  obtains
    e wy ky where
      "respond (dataLoader series) SetSymbol (setSymbol ch) \<lparr>ticker = ''TestSymbol''\<rparr> (widget t) =
         (Throw e, wy, replicate ky (ConsoleLog ''getBars called, providing data...'' []))"
      "provision (Some ch) series s =
         (Returned Cleanup,
          t\<lparr>console := console t @ replicate ky (ConsoleLog ''getBars called, providing data...'' []) @
              [ConsoleError ''Error setting up chart:'' [ArgError e]],
            calls := calls t @ [(SetSymbol, SymbolArg \<lparr>ticker = ''TestSymbol''\<rparr>, Throw e)],
            widget := wy\<rparr>)"
  | wy ky e wp kp where
      "respond (dataLoader series) SetSymbol (setSymbol ch) \<lparr>ticker = ''TestSymbol''\<rparr> (widget t) =
         (Normal, wy, replicate ky (ConsoleLog ''getBars called, providing data...'' []))"
      "respond (dataLoader series) SetPeriod (setPeriod ch) \<lparr>span = 1, period_type = ''day''\<rparr> wy =
         (Throw e, wp, replicate kp (ConsoleLog ''getBars called, providing data...'' []))"
      "provision (Some ch) series s =
         (Returned Cleanup,
          t\<lparr>console := console t @ replicate ky (ConsoleLog ''getBars called, providing data...'' []) @ replicate kp (ConsoleLog ''getBars called, providing data...'' []) @
              [ConsoleError ''Error setting up chart:'' [ArgError e]],
            calls := calls t @
              [(SetSymbol, SymbolArg \<lparr>ticker = ''TestSymbol''\<rparr>, Normal),
               (SetPeriod, PeriodArg \<lparr>span = 1, period_type = ''day''\<rparr>, Throw e)],
            widget := wp\<rparr>)"
  | wy ky wp kp where
      "respond (dataLoader series) SetSymbol (setSymbol ch) \<lparr>ticker = ''TestSymbol''\<rparr> (widget t) =
         (Normal, wy, replicate ky (ConsoleLog ''getBars called, providing data...'' []))"
      "respond (dataLoader series) SetPeriod (setPeriod ch) \<lparr>span = 1, period_type = ''day''\<rparr> wy =
         (Normal, wp, replicate kp (ConsoleLog ''getBars called, providing data...'' []))"
      "provision (Some ch) series s =
         (Returned Cleanup,
          t\<lparr>console := console t @ replicate ky (ConsoleLog ''getBars called, providing data...'' []) @ replicate kp (ConsoleLog ''getBars called, providing data...'' []),
            calls := calls t @
              [(SetSymbol, SymbolArg \<lparr>ticker = ''TestSymbol''\<rparr>, Normal),
               (SetPeriod, PeriodArg \<lparr>span = 1, period_type = ''day''\<rparr>, Normal)],
            widget := wp\<rparr>)"
proof -
  obtain cy wy ky where ry:
    "respond (dataLoader series :: ('r, 'm) DataLoader) SetSymbol (setSymbol ch) \<lparr>ticker = ''TestSymbol''\<rparr> (widget t) =
       (cy, wy, replicate ky (ConsoleLog ''getBars called, providing data...'' []))"
    by (rule respond_lines)
  obtain cp wp kp where rp:
    "respond (dataLoader series :: ('r, 'm) DataLoader) SetPeriod (setPeriod ch) \<lparr>span = 1, period_type = ''day''\<rparr> wy =
       (cp, wp, replicate kp (ConsoleLog ''getBars called, providing data...'' []))"
    by (rule respond_lines)
  note rw = provision_def try_catch_def console_log_def console_error_def invoke_def assms ry rp
  show thesis
  proof (cases cy)
    case Normal
    note ny = this
    show thesis
    proof (cases cp)
      case Normal
      show thesis
        by (rule that(3) [of wy ky wp kp]) (simp_all add: rw ny Normal)
    next
      case (Throw e)
      show thesis
        by (rule that(2) [of wy ky e wp kp]) (simp_all add: rw ny Throw)
    qed
  next
    case (Throw e)
    show thesis
      by (rule that(1) [of e wy ky]) (simp_all add: rw Throw)
  qed
qed

lemmas obs_defs = completions_def attempted_def succeeded_def failed_def strategy_order_def
  strategy_calls_def success_record_def

lemmas run_defs = final_def provision_def load_data_def try_catch_def invoke_def respond_def
  console_log_def console_error_def fresh_def dataLoader_def

section \<open>Runs of the sample charts\<close>

lemma final_direct_chart:
  "final direct_chart series w =
     \<lparr>console =
        [ConsoleLog ''Chart initialized:'' [ArgChart],
         ConsoleLog ''Sample data:'' [ArgData series],
         ConsoleLog ''setDataLoader failed, trying alternative methods:''
           [ArgError (Thrown ''loader not supported'')],
         ConsoleLog ''applyNewData failed:'' [ArgError (TypeError ''applyNewData is not a function'')],
         ConsoleLog ''setData called successfully'' []],
      calls =
        [(SetDataLoader, LoaderArg (dataLoader series), Throw (Thrown ''loader not supported'')),
         (ApplyNewData, DataArg series, Throw (TypeError ''applyNewData is not a function'')),
         (SetData, DataArg series, Normal),
         (SetSymbol, SymbolArg \<lparr>ticker = ''TestSymbol''\<rparr>, Normal),
         (SetPeriod, PeriodArg \<lparr>span = 1, period_type = ''day''\<rparr>, Normal)],
      widget = series\<rparr>"
  by (simp add: run_defs direct_chart_def)

lemma final_no_methods:
  "final no_methods series w =
     \<lparr>console =
        [ConsoleLog ''Chart initialized:'' [ArgChart],
         ConsoleLog ''Sample data:'' [ArgData series],
         ConsoleLog ''setDataLoader failed, trying alternative methods:''
           [ArgError (TypeError ''setDataLoader is not a function'')],
         ConsoleLog ''applyNewData failed:'' [ArgError (TypeError ''applyNewData is not a function'')],
         ConsoleLog ''setData failed:'' [ArgError (TypeError ''setData is not a function'')],
         ConsoleLog ''loadData failed:'' [ArgError (TypeError ''loadData is not a function'')],
         ConsoleError ''All data loading methods failed'' [],
         ConsoleError ''Error setting up chart:'' [ArgError (TypeError ''setSymbol is not a function'')]],
      calls =
        [(SetDataLoader, LoaderArg (dataLoader series), Throw (TypeError ''setDataLoader is not a function'')),
         (ApplyNewData, DataArg series, Throw (TypeError ''applyNewData is not a function'')),
         (SetData, DataArg series, Throw (TypeError ''setData is not a function'')),
         (LoadData, DataArg series, Throw (TypeError ''loadData is not a function'')),
         (SetSymbol, SymbolArg \<lparr>ticker = ''TestSymbol''\<rparr>, Throw (TypeError ''setSymbol is not a function''))],
      widget = w\<rparr>"
  by (simp add: run_defs no_methods_def)

lemma final_config_only_chart:
  "final config_only_chart series w =
     \<lparr>console =
        [ConsoleLog ''Chart initialized:'' [ArgChart],
         ConsoleLog ''Sample data:'' [ArgData series],
         ConsoleLog ''setDataLoader failed, trying alternative methods:''
           [ArgError (TypeError ''setDataLoader is not a function'')],
         ConsoleLog ''applyNewData failed:'' [ArgError (TypeError ''applyNewData is not a function'')],
         ConsoleLog ''setData failed:'' [ArgError (TypeError ''setData is not a function'')],
         ConsoleLog ''loadData failed:'' [ArgError (TypeError ''loadData is not a function'')],
         ConsoleError ''All data loading methods failed'' []],
      calls =
        [(SetDataLoader, LoaderArg (dataLoader series), Throw (TypeError ''setDataLoader is not a function'')),
         (ApplyNewData, DataArg series, Throw (TypeError ''applyNewData is not a function'')),
         (SetData, DataArg series, Throw (TypeError ''setData is not a function'')),
         (LoadData, DataArg series, Throw (TypeError ''loadData is not a function'')),
         (SetSymbol, SymbolArg \<lparr>ticker = ''TestSymbol''\<rparr>, Normal),
         (SetPeriod, PeriodArg \<lparr>span = 1, period_type = ''day''\<rparr>, Normal)],
      widget = w\<rparr>"
  by (simp add: run_defs config_only_chart_def)

lemma final_loader_chart:
  "final loader_chart series w =
     \<lparr>console =
        [ConsoleLog ''Chart initialized:'' [ArgChart],
         ConsoleLog ''Sample data:'' [ArgData series],
         ConsoleLog ''getBars called, providing data...'' [],
         ConsoleLog ''setDataLoader called successfully'' [],
         ConsoleError ''Error setting up chart:'' [ArgError (TypeError ''setSymbol is not a function'')]],
      calls =
        [(SetDataLoader, LoaderArg (dataLoader series), Normal),
         (SetSymbol, SymbolArg \<lparr>ticker = ''TestSymbol''\<rparr>, Throw (TypeError ''setSymbol is not a function''))],
      widget = series\<rparr>"
  by (simp add: run_defs loader_chart_def)

lemma final_pulling_chart:
  "final pulling_chart series w =
     \<lparr>console =
        [ConsoleLog ''Chart initialized:'' [ArgChart],
         ConsoleLog ''Sample data:'' [ArgData series],
         ConsoleLog ''getBars called, providing data...'' [],
         ConsoleLog ''setDataLoader failed, trying alternative methods:''
           [ArgError (Thrown ''loader rejected'')],
         ConsoleLog ''applyNewData failed:'' [ArgError (TypeError ''applyNewData is not a function'')],
         ConsoleLog ''setData failed:'' [ArgError (TypeError ''setData is not a function'')],
         ConsoleLog ''loadData failed:'' [ArgError (TypeError ''loadData is not a function'')],
         ConsoleError ''All data loading methods failed'' [],
         ConsoleError ''Error setting up chart:'' [ArgError (TypeError ''setSymbol is not a function'')]],
      calls =
        [(SetDataLoader, LoaderArg (dataLoader series), Throw (Thrown ''loader rejected'')),
         (ApplyNewData, DataArg series, Throw (TypeError ''applyNewData is not a function'')),
         (SetData, DataArg series, Throw (TypeError ''setData is not a function'')),
         (LoadData, DataArg series, Throw (TypeError ''loadData is not a function'')),
         (SetSymbol, SymbolArg \<lparr>ticker = ''TestSymbol''\<rparr>, Throw (TypeError ''setSymbol is not a function''))],
      widget = series\<rparr>"
  by (simp add: run_defs pulling_chart_def)

section \<open>The order of the strategies\<close>

text \<open>
  C1. On a live chart the four ways of loading the bars are tried in the order
  \<^verbatim>\<open>setDataLoader\<close>, \<^verbatim>\<open>applyNewData\<close>, \<^verbatim>\<open>setData\<close>, \<^verbatim>\<open>loadData\<close>: the first is
  always tried, and each later one is tried exactly when all the earlier ones threw. The
  calls made are a prefix of that order, a method that returns normally is the last one
  called, at most one does, and the console carries the line
  \<open>\<dots> called successfully\<close> of exactly that method.
\<close>

theorem strategies_in_priority_order:
  fixes ch :: "('w, 'r, 'm) chart" and series :: "BarData list" and w :: 'w
  defines "F \<equiv> final ch series w"
  shows
    "attempted SetDataLoader F
     \<and> (attempted ApplyNewData F \<longleftrightarrow> failed SetDataLoader F)
     \<and> (attempted SetData F \<longleftrightarrow> failed SetDataLoader F \<and> failed ApplyNewData F)
     \<and> (attempted LoadData F \<longleftrightarrow>
          failed SetDataLoader F \<and> failed ApplyNewData F \<and> failed SetData F)
     \<and> strategy_calls F = take (length (strategy_calls F)) strategy_order
     \<and> (\<forall>n \<in> set strategy_order. succeeded n F \<longrightarrow> last (strategy_calls F) = n \<and> \<not> failed n F)
     \<and> length (filter (\<lambda>n. succeeded n F) strategy_order) \<le> 1
     \<and> (\<forall>n \<in> set strategy_order. success_record n \<in> set (console F) \<longleftrightarrow> succeeded n F)"
  unfolding F_def final_def
  by (rule load_data_cases [where ch = ch and series = series and s = "(fresh w)\<lparr>console := console (fresh w) @
                  [ConsoleLog ''Chart initialized:'' [ArgChart],
                   ConsoleLog ''Sample data:'' [ArgData series]]\<rparr>"];
      erule provision_Some_cases; simp add: obs_defs fresh_def)

theorem strategies_in_priority_order_witness:
  "SetData \<in> set strategy_order
   \<and> succeeded SetData (final direct_chart sampleData [])
   \<and> last (strategy_calls (final direct_chart sampleData [])) = SetData
   \<and> \<not> failed SetData (final direct_chart sampleData [])
   \<and> success_record SetData \<in> set (console (final direct_chart sampleData []))"
proof -
  have m: "SetData \<in> set strategy_order"
    by (simp add: strategy_order_def)
  have s: "succeeded SetData (final direct_chart sampleData [])"
    by (simp add: final_direct_chart obs_defs)
  from strategies_in_priority_order [of direct_chart sampleData "[]"] m s
  show ?thesis by blast
qed

section \<open>When every strategy fails\<close>

text \<open>
  C2, as the code has it. On a live chart where none of the strategy calls of the run
  returns normally, all four were called, in order, and each threw. The failure is
  reported on the console: apart from the lines \<^verbatim>\<open>getBars\<close> may have written while the
  handle ran, it carries, after the two opening lines, one failure line per strategy in
  that order, each with the error that call threw, and then the line
  \<open>All data loading methods failed\<close>; at most one more line follows, the report of a
  failed configuration call. The effect returns normally, with the cleanup function.
\<close>

theorem all_failed_records_four_failures:
  fixes ch :: "('w, 'r, 'm) chart" and series :: "BarData list" and w :: 'w
  defines "F \<equiv> final ch series w"
  assumes "\<not> succeeded SetDataLoader F" and "\<not> succeeded ApplyNewData F"
    and "\<not> succeeded SetData F" and "\<not> succeeded LoadData F"
  shows
    "\<exists>e1 e2 e3 e4 rest.
       take 4 (calls F) =
         [(SetDataLoader, LoaderArg (dataLoader series), Throw e1),
          (ApplyNewData, DataArg series, Throw e2),
          (SetData, DataArg series, Throw e3),
          (LoadData, DataArg series, Throw e4)]
       \<and> filter (\<lambda>line. line \<noteq> ConsoleLog ''getBars called, providing data...'' []) (console F) =
         [ConsoleLog ''Chart initialized:'' [ArgChart],
          ConsoleLog ''Sample data:'' [ArgData series],
          ConsoleLog ''setDataLoader failed, trying alternative methods:'' [ArgError e1],
          ConsoleLog ''applyNewData failed:'' [ArgError e2],
          ConsoleLog ''setData failed:'' [ArgError e3],
          ConsoleLog ''loadData failed:'' [ArgError e4],
          ConsoleError ''All data loading methods failed'' []] @ rest
       \<and> (rest = [] \<or> (\<exists>e. rest = [ConsoleError ''Error setting up chart:'' [ArgError e]]))
       \<and> fst (provision (Some ch) series (fresh w)) = Returned Cleanup"
proof -
  have "\<not> succeeded SetDataLoader (final ch series w) \<and> \<not> succeeded ApplyNewData (final ch series w)
      \<and> \<not> succeeded SetData (final ch series w) \<and> \<not> succeeded LoadData (final ch series w)
    \<longrightarrow> (\<exists>e1 e2 e3 e4 rest.
       take 4 (calls (final ch series w)) =
         [(SetDataLoader, LoaderArg (dataLoader series), Throw e1),
          (ApplyNewData, DataArg series, Throw e2),
          (SetData, DataArg series, Throw e3),
          (LoadData, DataArg series, Throw e4)]
       \<and> filter (\<lambda>line. line \<noteq> ConsoleLog ''getBars called, providing data...'' [])
           (console (final ch series w)) =
         [ConsoleLog ''Chart initialized:'' [ArgChart],
          ConsoleLog ''Sample data:'' [ArgData series],
          ConsoleLog ''setDataLoader failed, trying alternative methods:'' [ArgError e1],
          ConsoleLog ''applyNewData failed:'' [ArgError e2],
          ConsoleLog ''setData failed:'' [ArgError e3],
          ConsoleLog ''loadData failed:'' [ArgError e4],
          ConsoleError ''All data loading methods failed'' []] @ rest
       \<and> (rest = [] \<or> (\<exists>e. rest = [ConsoleError ''Error setting up chart:'' [ArgError e]]))
       \<and> fst (provision (Some ch) series (fresh w)) = Returned Cleanup)"
    unfolding final_def
    by (rule load_data_cases [where ch = ch and series = series and s = "(fresh w)\<lparr>console := console (fresh w) @
                  [ConsoleLog ''Chart initialized:'' [ArgChart],
                   ConsoleLog ''Sample data:'' [ArgData series]]\<rparr>"];
        erule provision_Some_cases; simp add: obs_defs fresh_def)
  with assms(2-) show ?thesis
    unfolding F_def by blast
qed

theorem all_failed_records_four_failures_witness:
  "\<not> succeeded SetDataLoader (final pulling_chart sampleData [])
   \<and> \<not> succeeded ApplyNewData (final pulling_chart sampleData [])
   \<and> \<not> succeeded SetData (final pulling_chart sampleData [])
   \<and> \<not> succeeded LoadData (final pulling_chart sampleData [])
   \<and> ConsoleLog ''getBars called, providing data...'' []
       \<in> set (console (final pulling_chart sampleData []))
   \<and> (\<exists>e1 e2 e3 e4.
       take 4 (calls (final pulling_chart sampleData [])) =
         [(SetDataLoader, LoaderArg (dataLoader sampleData), Throw e1),
          (ApplyNewData, DataArg sampleData, Throw e2),
          (SetData, DataArg sampleData, Throw e3),
          (LoadData, DataArg sampleData, Throw e4)])
   \<and> fst (provision (Some pulling_chart) sampleData (fresh [])) = Returned Cleanup"
proof -
  have h: "\<not> succeeded SetDataLoader (final pulling_chart sampleData [])"
    "\<not> succeeded ApplyNewData (final pulling_chart sampleData [])"
    "\<not> succeeded SetData (final pulling_chart sampleData [])"
    "\<not> succeeded LoadData (final pulling_chart sampleData [])"
    by (simp_all add: final_pulling_chart obs_defs)
  have g: "ConsoleLog ''getBars called, providing data...'' []
       \<in> set (console (final pulling_chart sampleData []))"
    by (simp add: final_pulling_chart)
  from all_failed_records_four_failures [OF h] h g
  show ?thesis by blast
qed

text \<open>
  What the effect hands back does not tell a run in which every strategy threw from one in
  which a strategy returned: it is the cleanup function both times.
\<close>

theorem all_failed_returns_like_success:
  "failed SetDataLoader (final no_methods sampleData [])
   \<and> failed ApplyNewData (final no_methods sampleData [])
   \<and> failed SetData (final no_methods sampleData [])
   \<and> failed LoadData (final no_methods sampleData [])
   \<and> succeeded SetData (final direct_chart sampleData [])
   \<and> fst (provision (Some no_methods) sampleData (fresh [])) = Returned Cleanup
   \<and> fst (provision (Some no_methods) sampleData (fresh [])) =
       fst (provision (Some direct_chart) sampleData (fresh []))"
  by (simp add: final_no_methods final_direct_chart obs_defs)
     (simp add: run_defs no_methods_def direct_chart_def)

section \<open>Nothing is thrown\<close>

text \<open>
  C3. Whatever the chart is (missing, or live with any of its six methods missing or
  throwing at any point), the effect returns: with nothing when the chart is missing, with
  the cleanup function otherwise. No error of a strategy or of a configuration call
  leaves it.
\<close>

theorem provision_never_throws:
  "fst (provision chart series s) =
     Returned (case chart of None \<Rightarrow> Undefined | Some ch \<Rightarrow> Cleanup)"
proof (cases chart)
  case None
  then show ?thesis by (simp add: provision_def console_error_def)
next
  case (Some ch)
  show ?thesis
    unfolding Some
    by (rule load_data_cases [where ch = ch and series = series and s = "s\<lparr>console := console s @
                  [ConsoleLog ''Chart initialized:'' [ArgChart],
                   ConsoleLog ''Sample data:'' [ArgData series]]\<rparr>"];
        erule provision_Some_cases; simp)
qed

section \<open>The configuration calls\<close>

text \<open>
  C5, as the code has it. On a live chart \<^verbatim>\<open>setSymbol\<close> is called once after the
  strategy calls, whether one of them returned or all four threw, and \<^verbatim>\<open>setPeriod\<close>
  is called after it exactly when \<^verbatim>\<open>setSymbol\<close> returned normally. No other call is made
  on the handle.
\<close>

theorem config_calls_unconditional:
  fixes ch :: "('w, 'r, 'm) chart" and series :: "BarData list" and w :: 'w
  defines "F \<equiv> final ch series w"
  shows
    "map fst (calls F) =
       strategy_calls F @ (if succeeded SetSymbol F then [SetSymbol, SetPeriod] else [SetSymbol])
     \<and> attempted SetSymbol F
     \<and> (attempted SetPeriod F \<longleftrightarrow> succeeded SetSymbol F)"
  unfolding F_def final_def
  by (rule load_data_cases [where ch = ch and series = series and s = "(fresh w)\<lparr>console := console (fresh w) @
                  [ConsoleLog ''Chart initialized:'' [ArgChart],
                   ConsoleLog ''Sample data:'' [ArgData series]]\<rparr>"];
      erule provision_Some_cases; simp add: obs_defs fresh_def)

theorem config_calls_unconditional_witness:
  "\<not> succeeded SetSymbol (final no_methods sampleData [])
   \<and> map fst (calls (final no_methods sampleData [])) =
       strategy_calls (final no_methods sampleData []) @ [SetSymbol]
   \<and> \<not> attempted SetPeriod (final no_methods sampleData [])"
proof -
  have h: "\<not> succeeded SetSymbol (final no_methods sampleData [])"
    by (simp add: final_no_methods obs_defs)
  from config_calls_unconditional [of no_methods sampleData "[]"] h
  show ?thesis by simp
qed

text \<open>
  A run in which every strategy throws and both configuration calls are made all the same:
  the chart has \<^verbatim>\<open>setSymbol\<close> and \<^verbatim>\<open>setPeriod\<close> and none of the four loading methods.
\<close>

theorem config_calls_after_all_failed:
  "failed SetDataLoader (final config_only_chart sampleData [])
   \<and> failed ApplyNewData (final config_only_chart sampleData [])
   \<and> failed SetData (final config_only_chart sampleData [])
   \<and> failed LoadData (final config_only_chart sampleData [])
   \<and> \<not> succeeded SetDataLoader (final config_only_chart sampleData [])
   \<and> \<not> succeeded ApplyNewData (final config_only_chart sampleData [])
   \<and> \<not> succeeded SetData (final config_only_chart sampleData [])
   \<and> \<not> succeeded LoadData (final config_only_chart sampleData [])
   \<and> attempted SetSymbol (final config_only_chart sampleData [])
   \<and> attempted SetPeriod (final config_only_chart sampleData [])"
  by (simp add: final_config_only_chart obs_defs)

text \<open>
  C6, as the code has it. After a strategy that returned normally, \<^verbatim>\<open>setSymbol\<close> is
  called, and \<^verbatim>\<open>setPeriod\<close> exactly when \<^verbatim>\<open>setSymbol\<close> returned normally. When
  either of them throws, the error is the last thing on the console, under
  \<open>Error setting up chart:\<close>; the success line of the strategy stays, no
  \<open>All data loading methods failed\<close> line is written, and the effect returns normally.
\<close>

theorem config_failure_keeps_success:
  fixes ch :: "('w, 'r, 'm) chart" and series :: "BarData list" and w :: 'w
  defines "F \<equiv> final ch series w"
  assumes "n \<in> set strategy_order" and "succeeded n F"
  shows
    "attempted SetSymbol F
     \<and> (attempted SetPeriod F \<longleftrightarrow> succeeded SetSymbol F)
     \<and> (failed SetSymbol F \<or> failed SetPeriod F \<longrightarrow>
          (\<exists>e. snd (snd (last (calls F))) = Throw e
             \<and> last (console F) = ConsoleError ''Error setting up chart:'' [ArgError e]))
     \<and> success_record n \<in> set (console F)
     \<and> ConsoleError ''All data loading methods failed'' [] \<notin> set (console F)
     \<and> fst (provision (Some ch) series (fresh w)) = Returned Cleanup"
proof -
  have "n \<in> set strategy_order \<and> succeeded n (final ch series w) \<longrightarrow>
     attempted SetSymbol (final ch series w)
     \<and> (attempted SetPeriod (final ch series w) \<longleftrightarrow> succeeded SetSymbol (final ch series w))
     \<and> (failed SetSymbol (final ch series w) \<or> failed SetPeriod (final ch series w) \<longrightarrow>
          (\<exists>e. snd (snd (last (calls (final ch series w)))) = Throw e
             \<and> last (console (final ch series w)) =
                 ConsoleError ''Error setting up chart:'' [ArgError e]))
     \<and> success_record n \<in> set (console (final ch series w))
     \<and> ConsoleError ''All data loading methods failed'' [] \<notin> set (console (final ch series w))
     \<and> fst (provision (Some ch) series (fresh w)) = Returned Cleanup"
    unfolding final_def
    by (rule load_data_cases [where ch = ch and series = series and s = "(fresh w)\<lparr>console := console (fresh w) @
                  [ConsoleLog ''Chart initialized:'' [ArgChart],
                   ConsoleLog ''Sample data:'' [ArgData series]]\<rparr>"];
        erule provision_Some_cases; auto simp add: obs_defs fresh_def)
  with assms(2-) show ?thesis
    unfolding F_def by blast
qed

theorem config_failure_keeps_success_witness:
  "SetDataLoader \<in> set strategy_order
   \<and> succeeded SetDataLoader (final loader_chart sampleData [])
   \<and> failed SetSymbol (final loader_chart sampleData [])
   \<and> \<not> attempted SetPeriod (final loader_chart sampleData [])
   \<and> last (console (final loader_chart sampleData [])) =
       ConsoleError ''Error setting up chart:'' [ArgError (TypeError ''setSymbol is not a function'')]
   \<and> success_record SetDataLoader \<in> set (console (final loader_chart sampleData []))"
proof -
  have m: "SetDataLoader \<in> set strategy_order"
    by (simp add: strategy_order_def)
  have s: "succeeded SetDataLoader (final loader_chart sampleData [])"
    and f: "failed SetSymbol (final loader_chart sampleData [])"
    and ns: "\<not> succeeded SetSymbol (final loader_chart sampleData [])"
    and l: "snd (snd (last (calls (final loader_chart sampleData [])))) =
       Throw (TypeError ''setSymbol is not a function'')"
    by (simp_all add: final_loader_chart obs_defs)
  from config_failure_keeps_success [OF m s] m s f ns l
  show ?thesis by auto
qed


text \<open>
  A run in which the loader is accepted and \<^verbatim>\<open>setSymbol\<close> throws: \<^verbatim>\<open>setPeriod\<close>,
  which the chart has, is never called.
\<close>

theorem symbol_failure_skips_period:
  "succeeded SetDataLoader (final loader_chart sampleData [])
   \<and> failed SetSymbol (final loader_chart sampleData [])
   \<and> \<not> attempted SetPeriod (final loader_chart sampleData [])"
  by (simp add: final_loader_chart obs_defs)

section \<open>The bars that reach the chart\<close>

text \<open>
  C7. The first call on a live chart hands \<^verbatim>\<open>setDataLoader\<close> the loader built from
  the series. Whatever request the widget passes to its \<^verbatim>\<open>getBars\<close>, and however many
  requests it makes, each is answered by one call of that request's callback with the
  whole series (and one console line).
\<close>

theorem getBars_supplies_whole_series:
  fixes ch :: "('w, 'r, 'm) chart" and params :: "('r, 'm) GetBarsParams_scheme"
  shows
    "(\<exists>c. hd (calls (final ch series w)) = (SetDataLoader, LoaderArg (dataLoader series), c))
     \<and> getBars (dataLoader series) params =
         ([ConsoleLog ''getBars called, providing data...'' []], callback params series)
     \<and> map (getBars (dataLoader series)) requests =
         map (\<lambda>p. ([ConsoleLog ''getBars called, providing data...'' []], callback p series))
           requests"
proof -
  have "\<exists>c. hd (calls (final ch series w)) = (SetDataLoader, LoaderArg (dataLoader series), c)"
    unfolding final_def
    by (rule load_data_cases [where ch = ch and series = series and s = "(fresh w)\<lparr>console := console (fresh w) @
                  [ConsoleLog ''Chart initialized:'' [ArgChart],
                   ConsoleLog ''Sample data:'' [ArgData series]]\<rparr>"];
        erule provision_Some_cases; simp add: fresh_def)
  then show ?thesis
    by (simp add: dataLoader_def)
qed

text \<open>
  C8. The arguments of the strategy calls of a run are, in order, the loader built from
  the series and then the series itself, as many of them as calls were made; the loader's
  callback receives the series as it is, and the console shows the same series.
\<close>

theorem series_forwarded_unchanged:
  fixes ch :: "('w, 'r, 'm) chart" and series :: "BarData list" and w :: 'w
    and params :: "('r, 'm) GetBarsParams_scheme"
  defines "F \<equiv> final ch series w"
  shows
    "map (\<lambda>(n, a, c). a) (filter (\<lambda>(n, a, c). n \<in> set strategy_order) (calls F)) =
       take (length (strategy_calls F))
         [LoaderArg (dataLoader series), DataArg series, DataArg series, DataArg series]
     \<and> snd (getBars (dataLoader series) params) = callback params series
     \<and> console F ! 1 = ConsoleLog ''Sample data:'' [ArgData series]"
proof -
  have "map (\<lambda>(n, a, c). a) (filter (\<lambda>(n, a, c). n \<in> set strategy_order) (calls (final ch series w))) =
       take (length (strategy_calls (final ch series w)))
         [LoaderArg (dataLoader series), DataArg series, DataArg series, DataArg series]
     \<and> console (final ch series w) ! 1 = ConsoleLog ''Sample data:'' [ArgData series]"
    unfolding final_def
    by (rule load_data_cases [where ch = ch and series = series and s = "(fresh w)\<lparr>console := console (fresh w) @
                  [ConsoleLog ''Chart initialized:'' [ArgChart],
                   ConsoleLog ''Sample data:'' [ArgData series]]\<rparr>"];
        erule provision_Some_cases; simp add: obs_defs fresh_def)
  then show ?thesis
    by (simp add: F_def dataLoader_def)
qed



section \<open>What a run touches\<close>

text \<open>
  C10. From any state, the calls a run adds to the history of the handle are the first
  \<open>k\<close> strategies in order, \<open>1 \<le> k \<le> 4\<close>, all but the last of them throwing and the
  last returning unless all four were called, followed by \<^verbatim>\<open>setSymbol\<close> and possibly
  \<^verbatim>\<open>setPeriod\<close>. The widget ends in the state these calls lead to, the console keeps
  what it held (the run only appends its lines), and every other part of the state is as
  it was.
\<close>

theorem only_listed_calls_touch_handle:
  fixes ch :: "('w, 'r, 'm) chart" and series :: "BarData list"
    and s :: "('w, 'r, 'm, 'z) state_scheme"
  defines "s' \<equiv> snd (provision (Some ch) series s)"
  defines "new \<equiv> drop (length (calls s)) (calls s')"
  shows
    "(\<exists>k \<in> {1, 2, 3, 4}. \<exists>j \<in> {1, 2}.
        map fst new = take k strategy_order @ take j [SetSymbol, SetPeriod]
        \<and> Normal \<notin> set (map (\<lambda>(n, a, c). c) (take (k - 1) new))
        \<and> (k < 4 \<longrightarrow> snd (snd (new ! (k - 1))) = Normal))
     \<and> calls s' = calls s @ new
     \<and> replay ch (dataLoader series) new (widget s) = Some (widget s')
     \<and> state.more s' = state.more s
     \<and> take (length (console s)) (console s') = console s"
  unfolding s'_def new_def
  by (rule load_data_cases [where ch = ch and series = series and s = "s\<lparr>console := console s @
                  [ConsoleLog ''Chart initialized:'' [ArgChart],
                   ConsoleLog ''Sample data:'' [ArgData series]]\<rparr>"];
      erule provision_Some_cases; simp add: strategy_order_def)

theorem only_listed_calls_touch_handle_witness:
  "map fst (calls (final direct_chart sampleData [])) =
     take 3 strategy_order @ take 2 [SetSymbol, SetPeriod]
   \<and> (3::nat) < 4
   \<and> snd (snd (calls (final direct_chart sampleData []) ! (3 - 1))) = Normal
   \<and> replay direct_chart (dataLoader sampleData) (calls (final direct_chart sampleData [])) [] =
       Some (widget (final direct_chart sampleData []))"
proof -
  have c: "calls (fresh []) = ([] :: (method_name \<times> (BarData list, unit) call_arg \<times> completion) list)"
    and v: "widget (fresh [] :: (BarData list, BarData list, unit) state) = []"
    by (simp_all add: fresh_def)
  from only_listed_calls_touch_handle [where ch = direct_chart and series = sampleData and s = "fresh []"]
  have "replay direct_chart (dataLoader sampleData) (calls (final direct_chart sampleData [])) [] =
       Some (widget (final direct_chart sampleData []))"
    by (simp add: c v final_def)
  then show ?thesis
    by (simp add: final_direct_chart strategy_order_def)
qed

section \<open>A missing chart\<close>

text \<open>
  C4. When the handle is null, the effect reports the failure on the error console and
  returns at once with \<open>Undefined\<close> (no cleanup function); no method of a handle is
  called, neither a strategy nor a configuration call, and the widget is untouched.
\<close>

theorem provision_null:
  "provision None series s =
     (Returned Undefined,
      s\<lparr>console := console s @ [ConsoleError ''Failed to initialize KLineChart'' []]\<rparr>)
   \<and> calls (snd (provision None series s)) = calls s
   \<and> widget (snd (provision None series s)) = widget s"
  by (simp add: provision_def console_error_def)


end
